theory Spec2Isabelle
  imports Main "HOL-Library.Word"
begin

section \<open>The extensible factory of \<^verbatim>\<open>Creational/ExtensibleFactory/ExtensibleFactory.cpp\<close>\<close>

text \<open>
  The translation unit has one abstract class \<^verbatim>\<open>IGameObject\<close>, three concrete classes
  (\<^verbatim>\<open>Plane\<close>, \<^verbatim>\<open>Boat\<close>, \<^verbatim>\<open>Ant\<close>), the static registry \<^verbatim>\<open>GameObjectFactory\<close> and
  \<^verbatim>\<open>main\<close>. All of its state is global: the registry map, the three static counters, the
  free store and the standard output. The model passes that state explicitly.
\<close>

subsection \<open>Data\<close>

text \<open>
  The concrete classes have no data members (the constructor arguments \<^verbatim>\<open>x\<close> and \<^verbatim>\<open>y\<close>
  are dropped), so an object on the free store is its dynamic class.
\<close>

datatype IGameObject = Plane | Boat | Ant

text \<open>
  A value of type \<^verbatim>\<open>IGameObject*\<close>: the null pointer, or the address of an object. Addresses
  are indices into the free store.
\<close>

datatype IGameObject_ptr = nullptr | Ptr nat

text \<open>
  A value of type \<^verbatim>\<open>CreateObjectCallback\<close>, a pointer to a function
  \<^verbatim>\<open>IGameObject* (*)()\<close>. The functions of that type in the translation unit are the three
  static \<^verbatim>\<open>Create\<close> members, and they are the only values that are ever registered; a null
  function pointer is not a value of the model.
\<close>

datatype CreateObjectCallback = Plane_Create | Boat_Create | Ant_Create

text \<open>The four virtual member functions of \<^verbatim>\<open>IGameObject\<close>.\<close>

datatype member_function = ObjectPlayDefaultAnimation | ObjectMoveInGame | Update | Render

text \<open>
  Dereferencing a pointer that does not point to an object is undefined behaviour in C++;
  the model makes it an error value.
\<close>

datatype error = NullPointerDereference | InvalidPointer

text \<open>
  The global state. \<open>s_Objects\<close> is the \<^verbatim>\<open>std::map\<close> of the factory; the three counters are
  the \<^verbatim>\<open>static int ObjectsCreated\<close> members (32-bit, \<^verbatim>\<open>++\<close> is addition modulo \<open>2 ^ 32\<close>);
  \<open>heap\<close> is the free store, where \<^verbatim>\<open>new\<close> appends and nothing is ever deleted; \<open>cout\<close> is what has
  been written to the standard output. \<open>call_log\<close> is a history variable: every virtual call
  that is dispatched appends the receiver's address and the member function called.
\<close>

record program_state =
  s_Objects :: "string \<rightharpoonup> CreateObjectCallback"
  Plane_ObjectsCreated :: "32 word"
  Boat_ObjectsCreated :: "32 word"
  Ant_ObjectsCreated :: "32 word"
  heap :: "IGameObject list"
  cout :: string
  call_log :: "(nat \<times> member_function) list"

text \<open>The state at program start: static initialisation, before \<^verbatim>\<open>main\<close> runs.\<close>

definition initial_state :: program_state where
  "initial_state =
     \<lparr>s_Objects = Map.empty, Plane_ObjectsCreated = 0, Boat_ObjectsCreated = 0,
      Ant_ObjectsCreated = 0, heap = [], cout = [], call_log = []\<rparr>"

subsection \<open>The concrete classes\<close>

text \<open>\<^verbatim>\<open>std::endl\<close> writes a newline.\<close>

definition endl :: string where
  "endl = [CHR 0x0A]"

text \<open>The constructors: \<^verbatim>\<open>Plane(int x, int y) { ObjectsCreated++; }\<close> and its two siblings.\<close>

definition Plane_ctor :: "32 word \<Rightarrow> 32 word \<Rightarrow> program_state \<Rightarrow> program_state" where
  "Plane_ctor x y s = s\<lparr>Plane_ObjectsCreated := Plane_ObjectsCreated s + 1\<rparr>"

definition Boat_ctor :: "32 word \<Rightarrow> 32 word \<Rightarrow> program_state \<Rightarrow> program_state" where
  "Boat_ctor x y s = s\<lparr>Boat_ObjectsCreated := Boat_ObjectsCreated s + 1\<rparr>"

definition Ant_ctor :: "32 word \<Rightarrow> 32 word \<Rightarrow> program_state \<Rightarrow> program_state" where
  "Ant_ctor x y s = s\<lparr>Ant_ObjectsCreated := Ant_ObjectsCreated s + 1\<rparr>"

text \<open>
  The allocation of a \<^verbatim>\<open>new\<close> expression: the object is placed at the first unused address,
  which is returned.
\<close>

definition operator_new :: "IGameObject \<Rightarrow> program_state \<Rightarrow> IGameObject_ptr \<times> program_state" where
  "operator_new obj s = (Ptr (length (heap s)), s\<lparr>heap := heap s @ [obj]\<rparr>)"

text \<open>
  \<^verbatim>\<open>static IGameObject* Create() { return new Plane(0, 0); }\<close> and its two siblings.
\<close>

definition Plane_Create_fn :: "program_state \<Rightarrow> IGameObject_ptr \<times> program_state" where
  "Plane_Create_fn s = operator_new Plane (Plane_ctor 0 0 s)"

definition Boat_Create_fn :: "program_state \<Rightarrow> IGameObject_ptr \<times> program_state" where
  "Boat_Create_fn s = operator_new Boat (Boat_ctor 0 0 s)"

definition Ant_Create_fn :: "program_state \<Rightarrow> IGameObject_ptr \<times> program_state" where
  "Ant_Create_fn s = operator_new Ant (Ant_ctor 0 0 s)"

text \<open>A call through a function pointer.\<close>

fun invoke :: "CreateObjectCallback \<Rightarrow> program_state \<Rightarrow> IGameObject_ptr \<times> program_state" where
  "invoke Plane_Create s = Plane_Create_fn s"
| "invoke Boat_Create s = Boat_Create_fn s"
| "invoke Ant_Create s = Ant_Create_fn s"

text \<open>
  The member functions. \<^verbatim>\<open>Render\<close> writes the class name and a newline; the other three have
  empty bodies in every class.
\<close>

fun Render_body :: "IGameObject \<Rightarrow> program_state \<Rightarrow> program_state" where
  "Render_body Plane s = s\<lparr>cout := cout s @ ''plane'' @ endl\<rparr>"
| "Render_body Boat s = s\<lparr>cout := cout s @ ''boat'' @ endl\<rparr>"
| "Render_body Ant s = s\<lparr>cout := cout s @ ''ant'' @ endl\<rparr>"

fun body :: "member_function \<Rightarrow> IGameObject \<Rightarrow> program_state \<Rightarrow> program_state" where
  "body Render obj s = Render_body obj s"
| "body Update obj s = s"
| "body ObjectPlayDefaultAnimation obj s = s"
| "body ObjectMoveInGame obj s = s"

text \<open>
  A virtual call \<^verbatim>\<open>e->m()\<close>: the pointer is dereferenced, the call is recorded and the body of
  the dynamic class runs.
\<close>

definition virtual_call :: "member_function \<Rightarrow> IGameObject_ptr \<Rightarrow> program_state \<Rightarrow> error + program_state" where
  "virtual_call m e s =
     (case e of
        nullptr \<Rightarrow> Inl NullPointerDereference
      | Ptr a \<Rightarrow>
          if a < length (heap s)
          then Inr (body m (heap s ! a) (s\<lparr>call_log := call_log s @ [(a, m)]\<rparr>))
          else Inl InvalidPointer)"

subsection \<open>\<^verbatim>\<open>GameObjectFactory\<close>\<close>

text \<open>\<^verbatim>\<open>s_Objects[type] = cb;\<close>\<close>

definition RegisterObject :: "string \<Rightarrow> CreateObjectCallback \<Rightarrow> program_state \<Rightarrow> program_state" where
  "RegisterObject type cb s = s\<lparr>s_Objects := (s_Objects s)(type \<mapsto> cb)\<rparr>"

text \<open>\<^verbatim>\<open>s_Objects.erase(type);\<close>\<close>

definition UnregisterObject :: "string \<Rightarrow> program_state \<Rightarrow> program_state" where
  "UnregisterObject type s = s\<lparr>s_Objects := (s_Objects s)(type := None)\<rparr>"

text \<open>
  \<^verbatim>\<open>it = s_Objects.find(type); if (it != s_Objects.end()) return (it->second)(); return nullptr;\<close>
\<close>

definition CreateSingleObject :: "string \<Rightarrow> program_state \<Rightarrow> IGameObject_ptr \<times> program_state" where
  "CreateSingleObject type s =
     (case s_Objects s type of
        Some cb \<Rightarrow> invoke cb s
      | None \<Rightarrow> (nullptr, s))"

subsection \<open>\<^verbatim>\<open>main\<close>\<close>

text \<open>
  The \<^verbatim>\<open>while (std::getline(myFile, line))\<close> loop of \<^verbatim>\<open>main\<close>. The stream is the list of the
  lines that \<^verbatim>\<open>getline\<close> yields; every line's result is pushed onto the collection.
\<close>

fun main_while :: "string list \<Rightarrow> IGameObject_ptr list \<Rightarrow> program_state
    \<Rightarrow> IGameObject_ptr list \<times> program_state" where
  "main_while [] gameObjectCollection s = (gameObjectCollection, s)"
| "main_while (line # myFile) gameObjectCollection s =
     (case CreateSingleObject line s of
        (object, s') \<Rightarrow> main_while myFile (gameObjectCollection @ [object]) s')"

text \<open>
  The \<^verbatim>\<open>for (auto& e : gameObjectCollection) { e->Update(); e->Render(); }\<close> loop of \<^verbatim>\<open>main\<close>.
\<close>

fun main_for :: "IGameObject_ptr list \<Rightarrow> program_state \<Rightarrow> error + program_state" where
  "main_for [] s = Inr s"
| "main_for (e # es) s =
     (case virtual_call Update e s of
        Inl err \<Rightarrow> Inl err
      | Inr s1 \<Rightarrow>
          (case virtual_call Render e s1 of
             Inl err \<Rightarrow> Inl err
           | Inr s2 \<Rightarrow> main_for es s2))"

text \<open>
  The first half of \<^verbatim>\<open>main\<close>: the three registrations and the reading of \<^verbatim>\<open>level1.txt\<close>.
  The file is \<open>None\<close> when it cannot be opened (\<^verbatim>\<open>is_open()\<close> is false), and its lines
  otherwise.
\<close>

definition main_setup :: "string list option \<Rightarrow> program_state
    \<Rightarrow> IGameObject_ptr list \<times> program_state" where
  "main_setup level1 s =
     (let s1 = RegisterObject ''plane'' Plane_Create s;
          s2 = RegisterObject ''boat'' Boat_Create s1;
          s3 = RegisterObject ''ant'' Ant_Create s2
      in case level1 of
           None \<Rightarrow> ([], s3)
         | Some myFile \<Rightarrow> main_while myFile [] s3)"

text \<open>\<^verbatim>\<open>main\<close>: setup, then one pass of the loop over the collection.\<close>

definition main :: "string list option \<Rightarrow> program_state \<Rightarrow> error + program_state" where
  "main level1 s = (case main_setup level1 s of (gameObjectCollection, s') \<Rightarrow> main_for gameObjectCollection s')"

subsection \<open>Notions used to state the properties\<close>

text \<open>The class named in the \<^verbatim>\<open>new\<close> expression of each \<^verbatim>\<open>Create\<close> function.\<close>

fun class_of :: "CreateObjectCallback \<Rightarrow> IGameObject" where
  "class_of Plane_Create = Plane"
| "class_of Boat_Create = Boat"
| "class_of Ant_Create = Ant"

text \<open>
  The object a pointer points to in a state: none for the null pointer and for an address
  where nothing has been allocated.
\<close>

definition deref :: "program_state \<Rightarrow> IGameObject_ptr \<Rightarrow> IGameObject option" where
  "deref s e =
     (case e of
        nullptr \<Rightarrow> None
      | Ptr a \<Rightarrow> if a < length (heap s) then Some (heap s ! a) else None)"

text \<open>
  A call of one of the three public members of \<^verbatim>\<open>GameObjectFactory\<close>, and a sequence of such
  calls run in order. The pointer a \<open>Create\<close> call returns is dropped; its effect on the state
  is kept.
\<close>

datatype factory_call = Register string CreateObjectCallback | Unregister string | Create string

fun run_call :: "factory_call \<Rightarrow> program_state \<Rightarrow> program_state" where
  "run_call (Register type cb) s = RegisterObject type cb s"
| "run_call (Unregister type) s = UnregisterObject type s"
| "run_call (Create type) s = snd (CreateSingleObject type s)"

fun run_calls :: "factory_call list \<Rightarrow> program_state \<Rightarrow> program_state" where
  "run_calls [] s = s"
| "run_calls (c # cs) s = run_calls cs (run_call c s)"

text \<open>
  The last \<open>Register\<close> or \<open>Unregister\<close> call for key \<open>k\<close> in a sequence: \<open>Some (Some cb)\<close> when it
  registered \<open>cb\<close>, \<open>Some None\<close> when it unregistered the key, \<open>None\<close> when the sequence has no
  such call.
\<close>

fun most_recent :: "string \<Rightarrow> factory_call list \<Rightarrow> CreateObjectCallback option option" where
  "most_recent k [] = None"
| "most_recent k (Register type cb # cs) =
     (case most_recent k cs of
        Some r \<Rightarrow> Some r
      | None \<Rightarrow> if type = k then Some (Some cb) else None)"
| "most_recent k (Unregister type # cs) =
     (case most_recent k cs of
        Some r \<Rightarrow> Some r
      | None \<Rightarrow> if type = k then Some None else None)"
| "most_recent k (Create type # cs) = most_recent k cs"

text \<open>A sequence of factory functions called one after the other.\<close>

fun invoke_all :: "CreateObjectCallback list \<Rightarrow> program_state \<Rightarrow> program_state" where
  "invoke_all [] s = s"
| "invoke_all (cb # cbs) s = invoke_all cbs (snd (invoke cb s))"

section \<open>Properties\<close>

subsection \<open>What each operation changes\<close>

lemmas Create_defs = Plane_Create_fn_def Boat_Create_fn_def Ant_Create_fn_def operator_new_def
  Plane_ctor_def Boat_ctor_def Ant_ctor_def

lemma invoke_eq: "invoke cb s = (Ptr (length (heap s)), snd (invoke cb s))"
  by (cases cb) (simp_all add: Create_defs)

lemma fst_invoke: "fst (invoke cb s) = Ptr (length (heap s))"
  using invoke_eq [of cb s] by (metis fst_conv)

lemma heap_invoke: "heap (snd (invoke cb s)) = heap s @ [class_of cb]"
  by (cases cb) (simp_all add: Create_defs)

lemma s_Objects_invoke: "s_Objects (snd (invoke cb s)) = s_Objects s"
  by (cases cb) (simp_all add: Create_defs)

lemma counters_invoke:
  "Plane_ObjectsCreated (snd (invoke cb s)) =
     Plane_ObjectsCreated s + (if cb = Plane_Create then 1 else 0)"
  "Boat_ObjectsCreated (snd (invoke cb s)) =
     Boat_ObjectsCreated s + (if cb = Boat_Create then 1 else 0)"
  "Ant_ObjectsCreated (snd (invoke cb s)) =
     Ant_ObjectsCreated s + (if cb = Ant_Create then 1 else 0)"
  by (cases cb; simp add: Create_defs)+

lemma class_of_inj: "class_of f = class_of g \<Longrightarrow> f = g"
  by (cases f; cases g; simp)

lemma RegisterObject_frame:
  "heap (RegisterObject type cb s) = heap s"
  "s_Objects (RegisterObject type cb s) = (s_Objects s)(type \<mapsto> cb)"
  "call_log (RegisterObject type cb s) = call_log s"
  "cout (RegisterObject type cb s) = cout s"
  by (simp_all add: RegisterObject_def)

lemma UnregisterObject_frame:
  "heap (UnregisterObject type s) = heap s"
  "s_Objects (UnregisterObject type s) = (s_Objects s)(type := None)"
  by (simp_all add: UnregisterObject_def)

lemma UnregisterObject_absent:
  "s_Objects s type = None \<Longrightarrow> UnregisterObject type s = s"
  by (simp add: UnregisterObject_def fun_upd_idem)

lemma CreateSingleObject_hit:
  "s_Objects s type = Some cb \<Longrightarrow> CreateSingleObject type s = invoke cb s"
  by (simp add: CreateSingleObject_def)

lemma CreateSingleObject_miss:
  "s_Objects s type = None \<Longrightarrow> CreateSingleObject type s = (nullptr, s)"
  by (simp add: CreateSingleObject_def)

lemma CreateSingleObject_after_UnregisterObject:
  "CreateSingleObject type (UnregisterObject type s) = (nullptr, UnregisterObject type s)"
  by (simp add: CreateSingleObject_miss UnregisterObject_frame)

lemma s_Objects_CreateSingleObject: "s_Objects (snd (CreateSingleObject type s)) = s_Objects s"
  by (simp add: CreateSingleObject_def s_Objects_invoke split: option.split)

lemma body_frame:
  "heap (body m obj s) = heap s"
  "call_log (body m obj s) = call_log s"
  "s_Objects (body m obj s) = s_Objects s"
  by (cases m; cases obj; simp)+

lemma virtual_call_valid:
  "a < length (heap s) \<Longrightarrow>
   \<exists>s'. virtual_call m (Ptr a) s = Inr s' \<and> heap s' = heap s \<and> s_Objects s' = s_Objects s \<and>
     call_log s' = call_log s @ [(a, m)]"
  by (simp add: virtual_call_def body_frame)

lemma virtual_call_registry:
  "virtual_call m e s = Inr s' \<Longrightarrow> s_Objects s' = s_Objects s"
  by (auto simp: virtual_call_def body_frame split: IGameObject_ptr.splits if_splits)

subsection \<open>The loops of \<^verbatim>\<open>main\<close>\<close>

lemma s_Objects_main_while: "s_Objects (snd (main_while myFile c s)) = s_Objects s"
proof (induction myFile arbitrary: c s)
  case Nil
  then show ?case by simp
next
  case (Cons line myFile)
  obtain p s1 where step: "CreateSingleObject line s = (p, s1)"
    by (cases "CreateSingleObject line s")
  then have "s_Objects s1 = s_Objects s"
    using s_Objects_CreateSingleObject [of line s] by simp
  then show ?case by (simp add: step Cons.IH)
qed

lemma main_while_registered:
  "set ids \<subseteq> dom (s_Objects s) \<Longrightarrow>
   fst (main_while ids c s) = c @ map Ptr [length (heap s)..<length (heap s) + length ids] \<and>
   heap (snd (main_while ids c s)) = heap s @ map (\<lambda>t. class_of (the (s_Objects s t))) ids"
proof (induction ids arbitrary: c s)
  case Nil
  then show ?case by simp
next
  case (Cons t ids)
  from Cons.prems obtain cb where cb: "s_Objects s t = Some cb" by auto
  define s1 where "s1 = snd (invoke cb s)"
  have step: "CreateSingleObject t s = (Ptr (length (heap s)), s1)"
    using cb invoke_eq [of cb s] by (simp add: CreateSingleObject_hit s1_def)
  have reg: "s_Objects s1 = s_Objects s" by (simp add: s1_def s_Objects_invoke)
  have hp: "heap s1 = heap s @ [class_of cb]" by (simp add: s1_def heap_invoke)
  from Cons.prems reg have "set ids \<subseteq> dom (s_Objects s1)" by simp
  note IH = Cons.IH [OF this, of "c @ [Ptr (length (heap s))]"]
  have upt: "[length (heap s)..<length (heap s) + length (t # ids)] =
      length (heap s) # [length (heap s1)..<length (heap s1) + length ids]"
    by (simp add: hp upt_rec)
  have "fst (main_while (t # ids) c s) = fst (main_while ids (c @ [Ptr (length (heap s))]) s1)"
    by (simp add: step)
  also have "\<dots> = (c @ [Ptr (length (heap s))]) @
      map Ptr [length (heap s1)..<length (heap s1) + length ids]"
    using IH by blast
  also have "\<dots> = c @ map Ptr [length (heap s)..<length (heap s) + length (t # ids)]"
    unfolding upt by simp
  finally have first: "fst (main_while (t # ids) c s) =
      c @ map Ptr [length (heap s)..<length (heap s) + length (t # ids)]" .
  have "heap (snd (main_while (t # ids) c s)) =
      heap (snd (main_while ids (c @ [Ptr (length (heap s))]) s1))"
    by (simp add: step)
  also have "\<dots> = heap s1 @ map (\<lambda>t. class_of (the (s_Objects s1 t))) ids"
    using IH by blast
  also have "\<dots> = heap s @ map (\<lambda>t. class_of (the (s_Objects s t))) (t # ids)"
    by (simp add: hp reg cb)
  finally show ?case using first by blast
qed

lemma main_for_valid:
  "\<forall>a \<in> set as. a < length (heap s) \<Longrightarrow>
   \<exists>s'. main_for (map Ptr as) s = Inr s' \<and> heap s' = heap s \<and> s_Objects s' = s_Objects s \<and>
     call_log s' = call_log s @ concat (map (\<lambda>a. [(a, Update), (a, Render)]) as)"
proof (induction as arbitrary: s)
  case Nil
  then show ?case by simp
next
  case (Cons a as)
  then have a: "a < length (heap s)" by simp
  from virtual_call_valid [OF a, of Update] obtain s1 where
    s1: "virtual_call Update (Ptr a) s = Inr s1" "heap s1 = heap s" "s_Objects s1 = s_Objects s"
      "call_log s1 = call_log s @ [(a, Update)]" by blast
  from a s1 have "a < length (heap s1)" by simp
  from virtual_call_valid [OF this, of Render] obtain s2 where
    s2: "virtual_call Render (Ptr a) s1 = Inr s2" "heap s2 = heap s1" "s_Objects s2 = s_Objects s1"
      "call_log s2 = call_log s1 @ [(a, Render)]" by blast
  from Cons.prems s1 s2 have "\<forall>a \<in> set as. a < length (heap s2)" by simp
  from Cons.IH [OF this] obtain s' where
    "main_for (map Ptr as) s2 = Inr s'" "heap s' = heap s2" "s_Objects s' = s_Objects s2"
    "call_log s' = call_log s2 @ concat (map (\<lambda>a. [(a, Update), (a, Render)]) as)" by blast
  with s1 s2 show ?case by simp
qed

lemma main_for_registry:
  "main_for c s = Inr s' \<Longrightarrow> s_Objects s' = s_Objects s"
proof (induction c arbitrary: s)
  case Nil
  then show ?case by simp
next
  case (Cons e es)
  from Cons.prems obtain s1 s2 where
    "virtual_call Update e s = Inr s1" "virtual_call Render e s1 = Inr s2" "main_for es s2 = Inr s'"
    by (auto split: sum.splits)
  then show ?case using Cons.IH [of s2] by (simp add: virtual_call_registry)
qed

subsection \<open>Sequences of calls\<close>

lemma s_Objects_run_calls:
  "s_Objects (run_calls cs s) k = (case most_recent k cs of Some r \<Rightarrow> r | None \<Rightarrow> s_Objects s k)"
proof (induction cs arbitrary: s)
  case Nil
  then show ?case by simp
next
  case (Cons c cs)
  show ?case
    by (cases c)
      (simp_all add: Cons.IH RegisterObject_def UnregisterObject_def s_Objects_CreateSingleObject
        split: option.split)
qed

lemma CreateSingleObject_run_calls:
  "CreateSingleObject k (run_calls cs s0) =
     (case most_recent k cs of
        Some (Some cb) \<Rightarrow> invoke cb (run_calls cs s0)
      | Some None \<Rightarrow> (nullptr, run_calls cs s0)
      | None \<Rightarrow>
          (case s_Objects s0 k of
             Some cb \<Rightarrow> invoke cb (run_calls cs s0)
           | None \<Rightarrow> (nullptr, run_calls cs s0)))"
  by (simp add: CreateSingleObject_def s_Objects_run_calls split: option.split)

lemma counters_invoke_all:
  "Plane_ObjectsCreated (invoke_all cbs s) =
     Plane_ObjectsCreated s + of_nat (count_list cbs Plane_Create) \<and>
   Boat_ObjectsCreated (invoke_all cbs s) =
     Boat_ObjectsCreated s + of_nat (count_list cbs Boat_Create) \<and>
   Ant_ObjectsCreated (invoke_all cbs s) =
     Ant_ObjectsCreated s + of_nat (count_list cbs Ant_Create)"
  by (induction cbs arbitrary: s) (simp_all add: counters_invoke)

lemma sint_of_nat_32:
  assumes "n < 2 ^ 31"
  shows "sint (of_nat n :: 32 word) = int n"
proof -
  have "sint (of_nat n :: 32 word) = (int n + 2 ^ 31) mod 2 ^ 32 - 2 ^ 31"
    using int_word_sint [of "int n", where ?'a = 32] by simp
  moreover from assms have "int n < 2 ^ 31"
    by (metis of_nat_less_iff of_nat_numeral of_nat_power)
  then have "(int n + 2 ^ 31) mod 2 ^ 32 = int n + 2 ^ 31"
    by simp
  ultimately show ?thesis by simp
qed

section \<open>The claims\<close>

text \<open>
  C1. For an identifier with no registered entry, \<open>Create\<close> is to fail with
  \<open>NotFound\<close>/\<open>UnknownType\<close> and not to return a null object as an ordinary result.
  \<^verbatim>\<open>CreateSingleObject\<close> does return normally with the null pointer: in the registry that
  \<^verbatim>\<open>main\<close> sets up, the identifier \<^verbatim>\<open>unicorn\<close> yields \<open>nullptr\<close> and an unchanged state.
\<close>

theorem CreateSingleObject_unknown_returns_nullptr:
  "CreateSingleObject ''unicorn''
     (RegisterObject ''ant'' Ant_Create
       (RegisterObject ''boat'' Boat_Create
         (RegisterObject ''plane'' Plane_Create initial_state))) =
   (nullptr,
     RegisterObject ''ant'' Ant_Create
       (RegisterObject ''boat'' Boat_Create
         (RegisterObject ''plane'' Plane_Create initial_state)))"
  by (simp add: CreateSingleObject_def RegisterObject_def initial_state_def)

text \<open>
  C2. Loading is to skip an identifier that has no registered factory and to insert no
  placeholder for it. The loop of \<^verbatim>\<open>main\<close> pushes every result: with \<^verbatim>\<open>plane\<close> and \<^verbatim>\<open>boat\<close>
  registered, the lines \<^verbatim>\<open>plane\<close>, \<^verbatim>\<open>unicorn\<close>, \<^verbatim>\<open>boat\<close> give a collection of three entries whose
  second one is the null pointer, and \<^verbatim>\<open>main\<close> on that file then dereferences it.
\<close>

theorem main_while_unknown_pushes_nullptr:
  "fst (main_while [''plane'', ''unicorn'', ''boat''] []
     (RegisterObject ''boat'' Boat_Create (RegisterObject ''plane'' Plane_Create initial_state))) =
     [Ptr 0, nullptr, Ptr 1] \<and>
   main (Some [''plane'', ''unicorn'', ''boat'']) initial_state = Inl NullPointerDereference"
  by (simp add: main_def main_setup_def CreateSingleObject_def RegisterObject_def initial_state_def
      Create_defs virtual_call_def)

text \<open>
  C3. The loop over the collection visits it in stored order and calls \<^verbatim>\<open>Update\<close> and then
  \<^verbatim>\<open>Render\<close> on each object before it moves to the next one: for a collection of objects at
  the addresses \<open>as\<close>, the calls made are \<open>Update\<close>, \<open>Render\<close> on the first address, then
  \<open>Update\<close>, \<open>Render\<close> on the second, and so on.
\<close>

theorem main_for_call_sequence:
  assumes "\<forall>a \<in> set as. a < length (heap s)"
  shows "\<exists>s'. main_for (map Ptr as) s = Inr s' \<and>
    call_log s' = call_log s @ concat (map (\<lambda>a. [(a, Update), (a, Render)]) as)"
  using main_for_valid [OF assms] by blast

theorem main_for_call_sequence_witness:
  "\<exists>s'. main_for [Ptr 0, Ptr 1] (initial_state\<lparr>heap := [Plane, Boat]\<rparr>) = Inr s' \<and>
      call_log s' = [(0, Update), (0, Render), (1, Update), (1, Render)]"
  using main_for_call_sequence [of "[0, 1]" "initial_state\<lparr>heap := [Plane, Boat]\<rparr>"]
  by (simp add: initial_state_def)

text \<open>
  C4. Loading preserves the input order: when every identifier read is registered, the
  collection has one entry per identifier, and the entry at each index points to an object of
  the class that the factory registered under the identifier at that index constructs. With
  \<^verbatim>\<open>plane\<close> and \<^verbatim>\<open>boat\<close> registered, the lines \<^verbatim>\<open>plane\<close>, \<^verbatim>\<open>boat\<close>, \<^verbatim>\<open>plane\<close> give a plane, a boat
  and a plane, in that order.
\<close>

theorem main_while_preserves_order:
  assumes "set ids \<subseteq> dom (s_Objects s)"
  shows "length (fst (main_while ids [] s)) = length ids \<and>
    map (deref (snd (main_while ids [] s))) (fst (main_while ids [] s)) =
      map (\<lambda>t. map_option class_of (s_Objects s t)) ids"
proof -
  let ?c = "fst (main_while ids [] s)" and ?s' = "snd (main_while ids [] s)"
  let ?n = "length (heap s)"
  from main_while_registered [OF assms, of "[]"]
  have c: "?c = map Ptr [?n..<?n + length ids]"
    and h: "heap ?s' = heap s @ map (\<lambda>t. class_of (the (s_Objects s t))) ids"
    by simp_all
  have len: "length ?c = length ids" by (simp add: c)
  have "map (deref ?s') ?c = map (\<lambda>t. map_option class_of (s_Objects s t)) ids"
  proof (rule nth_equalityI)
    show "length (map (deref ?s') ?c) = length (map (\<lambda>t. map_option class_of (s_Objects s t)) ids)"
      by (simp add: len)
  next
    fix i
    assume "i < length (map (deref ?s') ?c)"
    then have i: "i < length ids" by (simp add: len)
    then have "ids ! i \<in> dom (s_Objects s)" using assms by (meson nth_mem subsetD)
    then obtain cb where cb: "s_Objects s (ids ! i) = Some cb" by blast
    have "?c ! i = Ptr (?n + i)" using i by (simp add: c)
    moreover have "heap ?s' ! (?n + i) = class_of cb" using i by (simp add: h cb)
    moreover have "?n + i < length (heap ?s')" using i by (simp add: h)
    ultimately have "deref ?s' (?c ! i) = Some (class_of cb)" by (simp add: deref_def)
    then show "map (deref ?s') ?c ! i = map (\<lambda>t. map_option class_of (s_Objects s t)) ids ! i"
      using i by (simp add: len cb)
  qed
  with len show ?thesis by blast
qed

theorem main_while_preserves_order_witness:
  "set [''plane'', ''boat'', ''plane''] \<subseteq>
     dom (s_Objects (RegisterObject ''boat'' Boat_Create
       (RegisterObject ''plane'' Plane_Create initial_state))) \<and>
   map (deref (snd (main_while [''plane'', ''boat'', ''plane''] []
       (RegisterObject ''boat'' Boat_Create (RegisterObject ''plane'' Plane_Create initial_state)))))
     (fst (main_while [''plane'', ''boat'', ''plane''] []
       (RegisterObject ''boat'' Boat_Create (RegisterObject ''plane'' Plane_Create initial_state)))) =
   [Some Plane, Some Boat, Some Plane]"
proof -
  have reg: "set [''plane'', ''boat'', ''plane''] \<subseteq>
     dom (s_Objects (RegisterObject ''boat'' Boat_Create
       (RegisterObject ''plane'' Plane_Create initial_state)))"
    by (simp add: RegisterObject_def)
  from main_while_preserves_order [OF reg] reg
  show ?thesis
    by (simp add: RegisterObject_def)
qed

text \<open>
  C5. Registering a key that is already present overwrites the entry and is not an error:
  after \<open>Register(type, f)\<close> and then \<open>Register(type, g)\<close> the state is the one that
  \<open>Register(type, g)\<close> alone gives; after any further creations \<open>Create(type)\<close> still calls
  \<open>g\<close>; and an object created through \<open>f\<close> before the second registration is the same object
  of the same class afterwards, distinct from the one created through \<open>g\<close>.
\<close>

theorem RegisterObject_last_write_wins:
  "RegisterObject type g (RegisterObject type f s) = RegisterObject type g s \<and>
   (let s2 = snd (main_while ts c (RegisterObject type g (RegisterObject type f s)))
    in CreateSingleObject type s2 = invoke g s2) \<and>
   (let s1 = RegisterObject type f s;
        p = fst (CreateSingleObject type s1);
        s2 = snd (CreateSingleObject type s1);
        s3 = RegisterObject type g s2;
        q = fst (CreateSingleObject type s3);
        s4 = snd (CreateSingleObject type s3)
    in deref s2 p = Some (class_of f) \<and> deref s4 p = Some (class_of f) \<and>
       deref s4 q = Some (class_of g) \<and> p \<noteq> q)"
proof (intro conjI)
  show "RegisterObject type g (RegisterObject type f s) = RegisterObject type g s"
    by (simp add: RegisterObject_def)
next
  define s2 where "s2 = snd (main_while ts c (RegisterObject type g (RegisterObject type f s)))"
  have "s_Objects s2 type = Some g"
    by (simp add: s2_def s_Objects_main_while RegisterObject_frame)
  then have "CreateSingleObject type s2 = invoke g s2"
    by (rule CreateSingleObject_hit)
  then show "let s2 = snd (main_while ts c (RegisterObject type g (RegisterObject type f s)))
    in CreateSingleObject type s2 = invoke g s2"
    by (simp add: s2_def)
next
  define s1 where "s1 = RegisterObject type f s"
  define s2 where "s2 = snd (invoke f s1)"
  define s3 where "s3 = RegisterObject type g s2"
  define s4 where "s4 = snd (invoke g s3)"
  have c1: "CreateSingleObject type s1 = invoke f s1"
    by (rule CreateSingleObject_hit) (simp add: s1_def RegisterObject_frame)
  have c3: "CreateSingleObject type s3 = invoke g s3"
    by (rule CreateSingleObject_hit) (simp add: s3_def RegisterObject_frame)
  have h2: "heap s2 = heap s @ [class_of f]"
    by (simp add: s2_def heap_invoke s1_def RegisterObject_frame)
  have h4: "heap s4 = heap s @ [class_of f, class_of g]"
    by (simp add: s4_def heap_invoke s3_def RegisterObject_frame h2)
  have p: "fst (invoke f s1) = Ptr (length (heap s))"
    by (simp add: fst_invoke s1_def RegisterObject_frame)
  have q: "fst (invoke g s3) = Ptr (Suc (length (heap s)))"
    by (simp add: fst_invoke s3_def RegisterObject_frame h2)
  have "deref s2 (fst (invoke f s1)) = Some (class_of f)"
    "deref s4 (fst (invoke f s1)) = Some (class_of f)"
    "deref s4 (fst (invoke g s3)) = Some (class_of g)"
    "fst (invoke f s1) \<noteq> fst (invoke g s3)"
    by (simp_all add: p q deref_def h2 h4 nth_append)
  then show "let s1 = RegisterObject type f s;
        p = fst (CreateSingleObject type s1);
        s2 = snd (CreateSingleObject type s1);
        s3 = RegisterObject type g s2;
        q = fst (CreateSingleObject type s3);
        s4 = snd (CreateSingleObject type s3)
    in deref s2 p = Some (class_of f) \<and> deref s4 p = Some (class_of f) \<and>
       deref s4 q = Some (class_of g) \<and> p \<noteq> q"
    unfolding Let_def
    using c1 c3
    by (simp add: s1_def [symmetric] s2_def [symmetric] s3_def [symmetric] s4_def [symmetric])
qed

text \<open>
  C6. After \<open>Unregister(k)\<close> a \<open>Create(k)\<close> is to fail with \<open>UnknownType\<close>, and \<open>Unregister\<close> of an
  identifier that was never registered is to change nothing. The second half holds
  (\<open>UnregisterObject_absent\<close>). For the first half the lookup does miss, but
  \<^verbatim>\<open>CreateSingleObject\<close> reports the miss by returning the null pointer as its ordinary
  result (\<open>CreateSingleObject_after_UnregisterObject\<close>); here for \<^verbatim>\<open>plane\<close>, registered and then
  unregistered.
\<close>

theorem CreateSingleObject_unregistered_plane_returns_nullptr:
  "CreateSingleObject ''plane''
     (UnregisterObject ''plane'' (RegisterObject ''plane'' Plane_Create initial_state)) =
   (nullptr, initial_state) \<and>
   UnregisterObject ''unicorn'' initial_state = initial_state"
  by (simp add: CreateSingleObject_def RegisterObject_def UnregisterObject_def initial_state_def)

text \<open>
  C7. A source of identifiers that is absent or empty is not fatal: whether \<^verbatim>\<open>level1.txt\<close>
  cannot be opened or has no line, the collection \<^verbatim>\<open>main\<close> builds is empty, the loop over an
  empty collection does nothing, and \<^verbatim>\<open>main\<close> returns normally with no virtual call made,
  nothing written and nothing allocated.
\<close>

theorem main_without_identifiers:
  "fst (main_setup None s) = [] \<and> fst (main_setup (Some []) s) = [] \<and>
   main_for [] s = Inr s \<and>
   (\<exists>s'. main None s = Inr s' \<and>
      call_log s' = call_log s \<and> cout s' = cout s \<and> heap s' = heap s) \<and>
   (\<exists>s'. main (Some []) s = Inr s' \<and>
      call_log s' = call_log s \<and> cout s' = cout s \<and> heap s' = heap s)"
  by (simp add: main_def main_setup_def RegisterObject_frame)

text \<open>
  C8. For two different keys registered with two different factories, \<open>Create\<close> of each key
  calls the factory registered under it and returns a pointer that pointed to no object
  before the call and points to an object of that factory's class after it, the two classes
  being different. And after any sequence of \<open>Register\<close>, \<open>Unregister\<close> and \<open>Create\<close> calls, the
  result of \<open>Create(k)\<close> is decided by the most recent \<open>Register\<close> or \<open>Unregister\<close> for \<open>k\<close>: the
  factory registered last is called, or the lookup misses after an \<open>Unregister\<close>; with no such
  call the entry of the starting state decides.
\<close>

theorem CreateSingleObject_follows_registration:
  assumes "k1 \<noteq> k2" and "f1 \<noteq> f2"
  shows "(let s = RegisterObject k2 f2 (RegisterObject k1 f1 s0);
              r1 = CreateSingleObject k1 s;
              r2 = CreateSingleObject k2 (snd r1)
          in r1 = invoke f1 s \<and> r2 = invoke f2 (snd r1) \<and>
             deref s (fst r1) = None \<and> deref (snd r1) (fst r2) = None \<and>
             deref (snd r2) (fst r1) = Some (class_of f1) \<and>
             deref (snd r2) (fst r2) = Some (class_of f2) \<and>
             class_of f1 \<noteq> class_of f2) \<and>
         CreateSingleObject k (run_calls cs s0) =
           (case most_recent k cs of
              Some (Some cb) \<Rightarrow> invoke cb (run_calls cs s0)
            | Some None \<Rightarrow> (nullptr, run_calls cs s0)
            | None \<Rightarrow>
                (case s_Objects s0 k of
                   Some cb \<Rightarrow> invoke cb (run_calls cs s0)
                 | None \<Rightarrow> (nullptr, run_calls cs s0)))"
proof -
  define s where "s = RegisterObject k2 f2 (RegisterObject k1 f1 s0)"
  define s' where "s' = snd (invoke f1 s)"
  define s'' where "s'' = snd (invoke f2 s')"
  have reg: "s_Objects s k1 = Some f1" "s_Objects s k2 = Some f2"
    using assms(1) by (simp_all add: s_def RegisterObject_frame)
  have r1: "CreateSingleObject k1 s = invoke f1 s"
    using reg(1) by (rule CreateSingleObject_hit)
  have "s_Objects s' k2 = Some f2"
    by (simp add: s'_def s_Objects_invoke reg)
  then have r2: "CreateSingleObject k2 s' = invoke f2 s'"
    by (rule CreateSingleObject_hit)
  have h': "heap s' = heap s @ [class_of f1]"
    by (simp add: s'_def heap_invoke)
  have h'': "heap s'' = heap s @ [class_of f1, class_of f2]"
    by (simp add: s''_def heap_invoke h')
  have p1: "fst (invoke f1 s) = Ptr (length (heap s))"
    by (rule fst_invoke)
  have p2: "fst (invoke f2 s') = Ptr (Suc (length (heap s)))"
    by (simp add: fst_invoke h')
  have objs: "deref s (fst (invoke f1 s)) = None" "deref s' (fst (invoke f2 s')) = None"
    "deref s'' (fst (invoke f1 s)) = Some (class_of f1)"
    "deref s'' (fst (invoke f2 s')) = Some (class_of f2)"
    by (simp_all add: p1 p2 deref_def h' h'' nth_append)
  have distinct: "class_of f1 \<noteq> class_of f2"
    using assms(2) class_of_inj by blast
  have first: "let s = RegisterObject k2 f2 (RegisterObject k1 f1 s0);
              r1 = CreateSingleObject k1 s;
              r2 = CreateSingleObject k2 (snd r1)
          in r1 = invoke f1 s \<and> r2 = invoke f2 (snd r1) \<and>
             deref s (fst r1) = None \<and> deref (snd r1) (fst r2) = None \<and>
             deref (snd r2) (fst r1) = Some (class_of f1) \<and>
             deref (snd r2) (fst r2) = Some (class_of f2) \<and>
             class_of f1 \<noteq> class_of f2"
    unfolding Let_def s_def [symmetric]
    using r1 r2 objs distinct
    by (simp add: s'_def [symmetric] s''_def [symmetric])
  show ?thesis
    using first CreateSingleObject_run_calls [of k cs s0] by blast
qed

theorem CreateSingleObject_follows_registration_witness:
  "''plane'' \<noteq> ''boat'' \<and> Plane_Create \<noteq> Boat_Create \<and>
   fst (CreateSingleObject ''plane''
     (RegisterObject ''boat'' Boat_Create (RegisterObject ''plane'' Plane_Create initial_state))) = Ptr 0 \<and>
   heap (snd (CreateSingleObject ''plane''
     (RegisterObject ''boat'' Boat_Create (RegisterObject ''plane'' Plane_Create initial_state)))) = [Plane] \<and>
   fst (CreateSingleObject ''plane''
     (run_calls [Register ''plane'' Plane_Create, Create ''plane'', Unregister ''plane'']
        initial_state)) = nullptr"
proof -
  have k: "''plane'' \<noteq> ''boat''" and f: "Plane_Create \<noteq> Boat_Create" by simp_all
  from CreateSingleObject_follows_registration [OF k f, of initial_state "''plane''"
      "[Register ''plane'' Plane_Create, Create ''plane'', Unregister ''plane'']"]
  show ?thesis
    by (simp add: Let_def CreateSingleObject_def RegisterObject_def UnregisterObject_def
        initial_state_def Create_defs)
qed

text \<open>
  C9. \<open>Create\<close> never modifies the registry: the map after \<^verbatim>\<open>CreateSingleObject\<close> is the map
  before it, whether the identifier is registered or not. The same holds for a call of any
  factory function, for the reading loop of \<^verbatim>\<open>main\<close> and for the loop over the collection;
  only \<^verbatim>\<open>RegisterObject\<close> and \<^verbatim>\<open>UnregisterObject\<close> write to the map.
\<close>

theorem CreateSingleObject_preserves_registry:
  "s_Objects (snd (CreateSingleObject type s)) = s_Objects s \<and>
   s_Objects (snd (invoke cb s)) = s_Objects s \<and>
   s_Objects (snd (main_while ts c s)) = s_Objects s \<and>
   (\<forall>s'. main_for es s = Inr s' \<longrightarrow> s_Objects s' = s_Objects s)"
  by (simp add: s_Objects_CreateSingleObject s_Objects_invoke s_Objects_main_while main_for_registry)

theorem CreateSingleObject_preserves_registry_witness:
  "\<exists>s'. main_for [Ptr 0] (snd (CreateSingleObject ''plane''
       (RegisterObject ''plane'' Plane_Create initial_state))) = Inr s' \<and>
     s_Objects s' = s_Objects (RegisterObject ''plane'' Plane_Create initial_state)"
proof -
  define s where "s = snd (CreateSingleObject ''plane''
       (RegisterObject ''plane'' Plane_Create initial_state))"
  have run: "main_for [Ptr 0] s = Inr (s\<lparr>call_log := [(0, Update), (0, Render)],
      cout := ''plane'' @ endl\<rparr>)"
    by (simp add: s_def CreateSingleObject_def RegisterObject_def initial_state_def Create_defs
        virtual_call_def)
  from CreateSingleObject_preserves_registry [where type = "''plane''"
      and s = "RegisterObject ''plane'' Plane_Create initial_state" and cb = Plane_Create
      and ts = "[]" and c = "[]" and es = "[]"]
  have "s_Objects s = s_Objects (RegisterObject ''plane'' Plane_Create initial_state)"
    unfolding s_def by blast
  with run show ?thesis
    unfolding s_def [symmetric] by simp
qed

text \<open>
  C10. Every call of \<^verbatim>\<open>Plane::Create\<close>, \<^verbatim>\<open>Boat::Create\<close> or \<^verbatim>\<open>Ant::Create\<close> adds one to the
  \<^verbatim>\<open>ObjectsCreated\<close> counter of its own class and leaves the other two counters unchanged, so
  that after any sequence of factory calls from program start each counter is the number of
  calls of its factory. The counters are 32-bit; the equality is one of 32-bit values, and it
  is an equality of integers as long as the number of calls is below \<open>2 ^ 31\<close>.
\<close>

theorem ObjectsCreated_counts_invocations:
  "(Plane_ObjectsCreated (snd (Plane_Create_fn s)) = Plane_ObjectsCreated s + 1 \<and>
    Boat_ObjectsCreated (snd (Plane_Create_fn s)) = Boat_ObjectsCreated s \<and>
    Ant_ObjectsCreated (snd (Plane_Create_fn s)) = Ant_ObjectsCreated s) \<and>
   (Boat_ObjectsCreated (snd (Boat_Create_fn s)) = Boat_ObjectsCreated s + 1 \<and>
    Plane_ObjectsCreated (snd (Boat_Create_fn s)) = Plane_ObjectsCreated s \<and>
    Ant_ObjectsCreated (snd (Boat_Create_fn s)) = Ant_ObjectsCreated s) \<and>
   (Ant_ObjectsCreated (snd (Ant_Create_fn s)) = Ant_ObjectsCreated s + 1 \<and>
    Plane_ObjectsCreated (snd (Ant_Create_fn s)) = Plane_ObjectsCreated s \<and>
    Boat_ObjectsCreated (snd (Ant_Create_fn s)) = Boat_ObjectsCreated s) \<and>
   (Plane_ObjectsCreated (invoke_all cbs initial_state) = of_nat (count_list cbs Plane_Create) \<and>
    Boat_ObjectsCreated (invoke_all cbs initial_state) = of_nat (count_list cbs Boat_Create) \<and>
    Ant_ObjectsCreated (invoke_all cbs initial_state) = of_nat (count_list cbs Ant_Create)) \<and>
   (count_list cbs Plane_Create < 2 ^ 31 \<longrightarrow>
      sint (Plane_ObjectsCreated (invoke_all cbs initial_state)) = int (count_list cbs Plane_Create)) \<and>
   (count_list cbs Boat_Create < 2 ^ 31 \<longrightarrow>
      sint (Boat_ObjectsCreated (invoke_all cbs initial_state)) = int (count_list cbs Boat_Create)) \<and>
   (count_list cbs Ant_Create < 2 ^ 31 \<longrightarrow>
      sint (Ant_ObjectsCreated (invoke_all cbs initial_state)) = int (count_list cbs Ant_Create))"
proof -
  have step: "Plane_ObjectsCreated (snd (Plane_Create_fn s)) = Plane_ObjectsCreated s + 1"
    "Boat_ObjectsCreated (snd (Plane_Create_fn s)) = Boat_ObjectsCreated s"
    "Ant_ObjectsCreated (snd (Plane_Create_fn s)) = Ant_ObjectsCreated s"
    "Boat_ObjectsCreated (snd (Boat_Create_fn s)) = Boat_ObjectsCreated s + 1"
    "Plane_ObjectsCreated (snd (Boat_Create_fn s)) = Plane_ObjectsCreated s"
    "Ant_ObjectsCreated (snd (Boat_Create_fn s)) = Ant_ObjectsCreated s"
    "Ant_ObjectsCreated (snd (Ant_Create_fn s)) = Ant_ObjectsCreated s + 1"
    "Plane_ObjectsCreated (snd (Ant_Create_fn s)) = Plane_ObjectsCreated s"
    "Boat_ObjectsCreated (snd (Ant_Create_fn s)) = Boat_ObjectsCreated s"
    by (simp_all add: Create_defs)
  have run: "Plane_ObjectsCreated (invoke_all cbs initial_state) = of_nat (count_list cbs Plane_Create)"
    "Boat_ObjectsCreated (invoke_all cbs initial_state) = of_nat (count_list cbs Boat_Create)"
    "Ant_ObjectsCreated (invoke_all cbs initial_state) = of_nat (count_list cbs Ant_Create)"
    using counters_invoke_all [of cbs initial_state] by (simp_all add: initial_state_def)
  have exact: "n < 2 ^ 31 \<longrightarrow> sint (of_nat n :: 32 word) = int n" for n
    using sint_of_nat_32 by blast
  show ?thesis
    unfolding step run using exact by blast
qed

theorem ObjectsCreated_counts_invocations_witness:
  "count_list [Plane_Create, Boat_Create, Plane_Create] Plane_Create < 2 ^ 31 \<and>
   sint (Plane_ObjectsCreated (invoke_all [Plane_Create, Boat_Create, Plane_Create] initial_state)) = 2 \<and>
   sint (Boat_ObjectsCreated (invoke_all [Plane_Create, Boat_Create, Plane_Create] initial_state)) = 1 \<and>
   sint (Ant_ObjectsCreated (invoke_all [Plane_Create, Boat_Create, Plane_Create] initial_state)) = 0"
  using ObjectsCreated_counts_invocations [of initial_state "[Plane_Create, Boat_Create, Plane_Create]"]
  by simp

end
